theory Spec2Isabelle
  imports Complex_Main "HOL-Library.AList"
begin

section \<open>JavaScript values used by the provider\<close>

text \<open>
  The provider is TypeScript. Strings are modelled as \<open>string\<close>, an optional property
  \<open>p?: T\<close> as \<open>T option\<close> (\<open>None\<close> is \<open>undefined\<close>), and a thrown value as the left
  injection of a sum. JavaScript numbers are modelled as reals: the code does no
  arithmetic on them, it only stores literals and passes caller values through.
  Console output is not modelled.
\<close>

type_synonym number = real

text \<open>
  Everything this code throws is \<open>new Error(message)\<close>; the transport may reject with
  a value that is not an \<open>Error\<close> instance, which \<open>getAvailableModels\<close> tests for.
\<close>

datatype js_error = Error string | NonError

text \<open>Truthiness of an optional string: \<open>undefined\<close> and \<open>''\<close> are falsy.\<close>

definition truthy :: "string option \<Rightarrow> bool" where
  "truthy v = (case v of None \<Rightarrow> False | Some s \<Rightarrow> s \<noteq> [])"

text \<open>\<open>a || b\<close> on an optional string \<open>a\<close> with a string fallback \<open>b\<close>.\<close>

definition or_else :: "string option \<Rightarrow> string \<Rightarrow> string" where
  "or_else a b = (case a of None \<Rightarrow> b | Some s \<Rightarrow> if s \<noteq> [] then s else b)"

section \<open>AnthropicAPIClient\<close>

text \<open>
  The interfaces of the client file. Field names carry a prefix per interface, since
  several interfaces share property names (\<open>id\<close>, \<open>content\<close>, \<open>model\<close>, \<open>temperature\<close>).
\<close>

datatype role = system | user | assistant

record AnthropicMessage =
  msg_role :: role
  msg_content :: string

record AnthropicChatRequest =
  req_model :: string
  req_max_tokens :: number
  req_messages :: "AnthropicMessage list"
  req_temperature :: "number option"
  req_top_p :: "number option"
  req_stop_sequences :: "string list option"
  req_system :: "string option"
  req_stream :: "bool option"

record content_part =
  part_type :: string
  part_text :: string

record AnthropicChatResponse =
  resp_id :: string
  resp_type :: string
  resp_role :: string
  resp_content :: "content_part list option"
  resp_model :: string
  resp_stop_reason :: "string option"
  resp_stop_sequence :: "string option"

record AnthropicModel =
  am_id :: string
  am_display_name :: "string option"
  am_created_at :: "string option"
  am_type :: string

record AnthropicModelsResponse =
  mr_data :: "AnthropicModel list option"
  mr_first_id :: "string option"
  mr_last_id :: "string option"
  mr_has_more :: bool

text \<open>
  The \<open>options\<close> parameter of \<open>generateText\<close> is the structural type
  \<open>{ temperature?, maxTokens?, topP?, systemPrompt? }\<close>. TypeScript accepts any object
  with at least these properties, so the record is used through its extensible scheme
  \<open>'a generate_options_scheme\<close>: an argument may carry further properties, which
  \<open>generateText\<close> cannot read.
\<close>

record generate_options =
  opt_temperature :: "number option"
  opt_maxTokens :: "number option"
  opt_topP :: "number option"
  opt_systemPrompt :: "string option"

text \<open>An options object that also carries stop sequences, as a caller may pass.\<close>

record generate_options_with_stop = generate_options +
  opt_stop_sequences :: "string list option"

text \<open>Calls made on the HTTP transport (the axios instance), in the order issued.\<close>

datatype transport_call = GET string | POST string AnthropicChatRequest

text \<open>
  What the transport answers to the one \<open>client.post('/messages', request)\<close> of a
  \<open>generateText\<close> call: a rejection, or a response whose \<open>data\<close> may be missing.
\<close>

type_synonym post_outcome = "js_error + AnthropicChatResponse option"

text \<open>
  Lines 104 to 118 of \<open>generateText\<close>: the message list and the request object.
  \<open>options?.p\<close> is \<open>Option.bind options p\<close>; \<open>x ?? 1024\<close> replaces only \<open>undefined\<close>.
  A property set to \<open>undefined\<close> is dropped when the request is serialised, so \<open>None\<close>
  stands for a field that is not sent. The request literal names no \<open>stop_sequences\<close>,
  \<open>system\<close> or \<open>stream\<close>.
\<close>

definition generateText_request ::
    "string \<Rightarrow> string \<Rightarrow> 'a generate_options_scheme option \<Rightarrow> AnthropicChatRequest" where
  "generateText_request model prompt options =
     (let messages0 = [];
          messages1 = (case Option.bind options opt_systemPrompt of
                         None \<Rightarrow> messages0
                       | Some s \<Rightarrow>
                           if s \<noteq> []
                           then messages0 @ [\<lparr>msg_role = system, msg_content = s\<rparr>]
                           else messages0);
          messages = messages1 @ [\<lparr>msg_role = user, msg_content = prompt\<rparr>]
      in \<lparr>req_model = model,
          req_max_tokens = (case Option.bind options opt_maxTokens of
                              None \<Rightarrow> 1024 | Some n \<Rightarrow> n),
          req_messages = messages,
          req_temperature = Option.bind options opt_temperature,
          req_top_p = Option.bind options opt_topP,
          req_stop_sequences = None,
          req_system = None,
          req_stream = None\<rparr>)"

text \<open>
  \<open>generateText\<close>: one POST of the request, then the check of the response and the
  join of the segments. The result is paired with the transport calls issued.
\<close>

definition generateText ::
    "post_outcome \<Rightarrow> string \<Rightarrow> string \<Rightarrow> 'a generate_options_scheme option
      \<Rightarrow> (js_error + string) \<times> transport_call list" where
  "generateText outcome model prompt options =
     (let request = generateText_request model prompt options
      in (case outcome of
            Inl e \<Rightarrow> Inl e
          | Inr None \<Rightarrow> Inl (Error ''No response content returned from Anthropic'')
          | Inr (Some response) \<Rightarrow>
              (case resp_content response of
                 None \<Rightarrow> Inl (Error ''No response content returned from Anthropic'')
               | Some parts \<Rightarrow>
                   if length parts = 0
                   then Inl (Error ''No response content returned from Anthropic'')
                   else Inr (concat (map part_text parts))),
          [POST ''/messages'' request]))"

text \<open>
  What the transport answers to the one \<open>client.get('/models')\<close> of a listing call: a
  rejection, or a response whose \<open>data\<close> may be missing.
\<close>

type_synonym get_outcome = "js_error + AnthropicModelsResponse option"

text \<open>
  The message of the \<open>TypeError\<close> raised by reading \<open>.data\<close> of a missing response body
  (the wording of the V8 engine; nothing in the code depends on it).
\<close>

definition undefined_read_message :: string where
  "undefined_read_message =
     ''Cannot read properties of undefined (reading '' @ [CHR 0x27] @ ''data'' @ [CHR 0x27] @ '')''"

text \<open>
  \<open>getAvailableModels\<close>, given the transport's answer: it returns \<open>response.data.data\<close>
  (which a malformed body may lack) and rethrows whatever the \<open>try\<close> block raised as
  an \<open>Error\<close> with the prefix \<open>Failed to fetch Anthropic models\<close>.
\<close>

definition getAvailableModels :: "get_outcome \<Rightarrow> js_error + AnthropicModel list option" where
  "getAvailableModels outcome =
     (case outcome of
        Inl error \<Rightarrow>
          Inl (Error (''Failed to fetch Anthropic models: '' @
                      (case error of Error message \<Rightarrow> message | NonError \<Rightarrow> ''Unknown error'')))
      | Inr None \<Rightarrow>
          Inl (Error (''Failed to fetch Anthropic models: '' @ undefined_read_message))
      | Inr (Some body) \<Rightarrow> Inr (mr_data body))"

section \<open>AnthropicProvider\<close>

text \<open>
  The sources hold two versions of the provider class. The first provider file
  (\<open>src/unnamed/part_000\<close>) seeds a list of known models in its constructor; the second
  (\<open>src/unnamed/part_001\<close>) discovers models from the API and has a fallback list. Where
  the two differ, the definitions carry the suffix \<open>_part0\<close> or \<open>_part1\<close>.
\<close>

text \<open>
  Modelled from the spec: the enum \<open>MediaCapability\<close> is declared in the host package,
  not in this repository. The spec's capability tag is an enum value of which only
  text generation is used here; every other member is an \<open>OtherCapability\<close>.
\<close>

datatype MediaCapability = TEXT_TO_TEXT | OtherCapability string

record ParameterSpec =
  ps_type :: string
  ps_min :: number
  ps_max :: number
  ps_default :: number

record ModelParameters =
  par_temperature :: ParameterSpec
  par_max_tokens :: ParameterSpec
  par_top_p :: ParameterSpec

text \<open>
  Modelled from the spec: the type \<open>ProviderModel\<close> is declared in the host package.
  Its fields are those of the spec's ModelDescriptor and of the object literals the
  three population routines build.
\<close>

record ProviderModel =
  pm_id :: string
  pm_name :: string
  pm_description :: string
  pm_capabilities :: "MediaCapability list"
  pm_parameters :: ModelParameters

text \<open>
  \<open>parseInt\<close> is a builtin of the runtime and no operation of the repository inspects
  a timeout, so a timeout read from the environment stays symbolic: \<open>ParseInt s\<close> is
  \<open>parseInt(s)\<close>, \<open>Millis n\<close> a number given by the caller.
\<close>

datatype timeout_value = Millis number | ParseInt string

record AnthropicConfig =
  cfg_apiKey :: string
  cfg_baseUrl :: "string option"
  cfg_timeout :: "timeout_value option"

text \<open>
  Modelled from the spec: the type \<open>ProviderConfig\<close> is declared in the host package;
  the provider reads its \<open>apiKey\<close>, \<open>baseUrl\<close> and \<open>timeout\<close>.
\<close>

record ProviderConfig =
  pc_apiKey :: "string option"
  pc_baseUrl :: "string option"
  pc_timeout :: "number option"

text \<open>
  The client object is modelled by the configuration it was constructed from. Its
  constructor merges defaults and creates the axios instance; it issues no request.
\<close>

record AnthropicAPIClient =
  client_config :: AnthropicConfig

definition new_AnthropicAPIClient :: "AnthropicConfig \<Rightarrow> AnthropicAPIClient" where
  "new_AnthropicAPIClient anthropicConfig = \<lparr>client_config = anthropicConfig\<rparr>"

text \<open>
  The provider's mutable state. \<open>discoveredModels\<close> is a JavaScript \<open>Map\<close>: an
  association list in insertion order, where \<open>Map.set\<close> is \<open>AList.update\<close> (an existing
  key keeps its position and gets the new value, a new key is appended).
\<close>

record AnthropicProvider =
  config :: "ProviderConfig option"
  apiClient :: "AnthropicAPIClient option"
  discoveredModels :: "(string \<times> ProviderModel) list"

record process_env =
  ANTHROPIC_API_KEY :: "string option"
  ANTHROPIC_BASE_URL :: "string option"
  ANTHROPIC_TIMEOUT :: "string option"

subsection \<open>Display names\<close>

definition nameMap :: "(string \<times> string) list" where
  "nameMap =
     [(''claude-3-5-sonnet-latest'', ''Claude 3.5 Sonnet (Latest)''),
      (''claude-3-5-haiku-latest'', ''Claude 3.5 Haiku (Latest)''),
      (''claude-3-opus-latest'', ''Claude 3 Opus (Latest)''),
      (''claude-3-5-sonnet-20241022'', ''Claude 3.5 Sonnet (Oct 2024)''),
      (''claude-3-5-sonnet-20240620'', ''Claude 3.5 Sonnet (Jun 2024)''),
      (''claude-3-5-haiku-20241022'', ''Claude 3.5 Haiku (Oct 2024)''),
      (''claude-3-opus-20240229'', ''Claude 3 Opus''),
      (''claude-3-sonnet-20240229'', ''Claude 3 Sonnet''),
      (''claude-3-haiku-20240307'', ''Claude 3 Haiku''),
      (''claude-2.1'', ''Claude 2.1''),
      (''claude-2.0'', ''Claude 2.0'')]"

text \<open>The regular expression class \<open>\w\<close>: ASCII letters, digits and the underscore.\<close>

definition is_word_char :: "char \<Rightarrow> bool" where
  "is_word_char c =
     (let n = (of_char c :: nat)
      in (97 \<le> n \<and> n \<le> 122) \<or> (65 \<le> n \<and> n \<le> 90) \<or> (48 \<le> n \<and> n \<le> 57) \<or> n = 95)"

text \<open>\<open>toUpperCase\<close> on one character matched by \<open>\w\<close>.\<close>

definition toUpperCase_char :: "char \<Rightarrow> char" where
  "toUpperCase_char c =
     (let n = (of_char c :: nat) in if 97 \<le> n \<and> n \<le> 122 then char_of (n - 32) else c)"

text \<open>
  \<open>replace(/\b\w/g, l => l.toUpperCase())\<close>: a word character is upper-cased when the
  character before it is not a word character (or it is the first one). The flag says
  whether the previous character of the input was a word character.
\<close>

fun capitalize_words :: "bool \<Rightarrow> string \<Rightarrow> string" where
  "capitalize_words prev [] = []"
| "capitalize_words prev (c # cs) =
     (if is_word_char c \<and> \<not> prev then toUpperCase_char c else c)
       # capitalize_words (is_word_char c) cs"

text \<open>
  \<open>getModelDisplayName\<close>: the table entry, or the identifier with hyphens replaced by
  spaces and words capitalised. (The lookup \<open>nameMap[modelId]\<close> on the own keys of the
  table; property names inherited from \<open>Object.prototype\<close> are outside the model.)
\<close>

definition getModelDisplayName :: "string \<Rightarrow> string" where
  "getModelDisplayName modelId =
     or_else (map_of nameMap modelId)
       (capitalize_words False (map (\<lambda>c. if c = CHR ''-'' then CHR '' '' else c) modelId))"

subsection \<open>The three population routines\<close>

text \<open>The \<open>parameters\<close> literal, the same in the three routines.\<close>

definition model_parameters :: ModelParameters where
  "model_parameters =
     \<lparr>par_temperature = \<lparr>ps_type = ''number'', ps_min = 0, ps_max = 1, ps_default = 0.7\<rparr>,
      par_max_tokens = \<lparr>ps_type = ''number'', ps_min = 1, ps_max = 100000, ps_default = 1024\<rparr>,
      par_top_p = \<lparr>ps_type = ''number'', ps_min = 0, ps_max = 1, ps_default = 1\<rparr>\<rparr>"

definition knownModels :: "string list" where
  "knownModels =
     [''claude-3-5-sonnet-latest'', ''claude-3-5-haiku-latest'', ''claude-3-opus-latest'',
      ''claude-3-5-sonnet-20241022'', ''claude-3-5-sonnet-20240620'',
      ''claude-3-5-haiku-20241022'', ''claude-3-opus-20240229'', ''claude-3-sonnet-20240229'',
      ''claude-3-haiku-20240307'', ''claude-2.1'', ''claude-2.0'']"

definition known_providerModel :: "string \<Rightarrow> ProviderModel" where
  "known_providerModel ident =
     \<lparr>pm_id = ident,
      pm_name = getModelDisplayName ident,
      pm_description = ''Anthropic Claude model: '' @ ident,
      pm_capabilities = [TEXT_TO_TEXT],
      pm_parameters = model_parameters\<rparr>"

text \<open>\<open>initializeKnownClaudeModels\<close> (first provider file): \<open>forEach\<close> is a fold.\<close>

definition initializeKnownClaudeModels :: "AnthropicProvider \<Rightarrow> AnthropicProvider" where
  "initializeKnownClaudeModels this =
     this\<lparr>discoveredModels :=
            fold (\<lambda>ident. AList.update ident (known_providerModel ident)) knownModels
              (discoveredModels this)\<rparr>"

definition fallbackModels :: "string list" where
  "fallbackModels =
     [''claude-3-5-sonnet-latest'', ''claude-3-5-haiku-latest'', ''claude-3-opus-latest'']"

definition fallback_providerModel :: "string \<Rightarrow> ProviderModel" where
  "fallback_providerModel ident =
     \<lparr>pm_id = ident,
      pm_name = getModelDisplayName ident,
      pm_description = ''Anthropic Claude model: '' @ ident @ '' (fallback)'',
      pm_capabilities = [TEXT_TO_TEXT],
      pm_parameters = model_parameters\<rparr>"

text \<open>\<open>initializeFallbackModels\<close> (second provider file).\<close>

definition initializeFallbackModels :: "AnthropicProvider \<Rightarrow> AnthropicProvider" where
  "initializeFallbackModels this =
     this\<lparr>discoveredModels :=
            fold (\<lambda>ident. AList.update ident (fallback_providerModel ident)) fallbackModels
              (discoveredModels this)\<rparr>"

definition discovered_providerModel :: "AnthropicModel \<Rightarrow> ProviderModel" where
  "discovered_providerModel model =
     \<lparr>pm_id = am_id model,
      pm_name = or_else (am_display_name model) (getModelDisplayName (am_id model)),
      pm_description =
        ''Anthropic Claude model: '' @ or_else (am_display_name model) (am_id model),
      pm_capabilities = [TEXT_TO_TEXT],
      pm_parameters = model_parameters\<rparr>"

text \<open>
  \<open>discoverModels\<close> (second provider file) is asynchronous. Its synchronous prefix
  tests \<open>this.apiClient\<close> and issues the listing request; \<open>discoverModels_start\<close> tells
  whether the call is suspended at the \<open>await\<close> and which transport calls it issued.
\<close>

definition discoverModels_start :: "AnthropicProvider \<Rightarrow> bool \<times> transport_call list" where
  "discoverModels_start this =
     (case apiClient this of
        None \<Rightarrow> (False, [])
      | Some client \<Rightarrow> (True, [GET ''/models'']))"

text \<open>
  The continuation after the \<open>await\<close>, on the provider state at that time and the
  result of \<open>getAvailableModels\<close>. The inner \<open>case\<close> is the \<open>try\<close> block (\<open>Inl\<close>: it
  threw), the outer one the \<open>catch\<close> handler. Neither branch clears the map. The
  listed models are objects of the declared type \<open>AnthropicModel\<close>, so the \<open>forEach\<close>
  body cannot throw.
\<close>

definition discoverModels_resume ::
    "AnthropicProvider \<Rightarrow> js_error + AnthropicModel list option
      \<Rightarrow> (js_error + unit) \<times> AnthropicProvider" where
  "discoverModels_resume this listing =
     (case (case listing of
              Inl error \<Rightarrow> Inl error
            | Inr None \<Rightarrow> Inr (initializeFallbackModels this)
            | Inr (Some models) \<Rightarrow>
                if length models = 0 then Inr (initializeFallbackModels this)
                else Inr (this\<lparr>discoveredModels :=
                                 fold (\<lambda>model. AList.update (am_id model)
                                                 (discovered_providerModel model))
                                   models (discoveredModels this)\<rparr>))
      of
        Inr this' \<Rightarrow> (Inr (), this')
      | Inl error \<Rightarrow> (Inr (), initializeFallbackModels this))"

text \<open>A whole, awaited run of \<open>discoverModels\<close>, given the transport's answer.\<close>

definition discoverModels ::
    "AnthropicProvider \<Rightarrow> get_outcome
      \<Rightarrow> ((js_error + unit) \<times> AnthropicProvider) \<times> transport_call list" where
  "discoverModels this outcome =
     (case discoverModels_start this of
        (False, calls) \<Rightarrow> ((Inr (), this), calls)
      | (True, calls) \<Rightarrow> (discoverModels_resume this (getAvailableModels outcome), calls))"

subsection \<open>Construction and configuration\<close>

text \<open>
  The constructor of the first provider file: with a non-empty API key in the
  environment it creates the client and seeds the known models, with no transport call.
\<close>

definition constructor_part0 :: "process_env \<Rightarrow> AnthropicProvider \<times> transport_call list" where
  "constructor_part0 env =
     (let this = \<lparr>config = None, apiClient = None, discoveredModels = []\<rparr>
      in case ANTHROPIC_API_KEY env of
           None \<Rightarrow> (this, [])
         | Some apiKey \<Rightarrow>
             if apiKey = [] then (this, [])
             else
               (let anthropicConfig =
                      \<lparr>cfg_apiKey = apiKey,
                       cfg_baseUrl = (if truthy (ANTHROPIC_BASE_URL env)
                                      then ANTHROPIC_BASE_URL env else None),
                       cfg_timeout = (if truthy (ANTHROPIC_TIMEOUT env)
                                      then map_option ParseInt (ANTHROPIC_TIMEOUT env)
                                      else None)\<rparr>;
                    this1 = this\<lparr>apiClient := Some (new_AnthropicAPIClient anthropicConfig)\<rparr>;
                    this2 = this1\<lparr>config := Some \<lparr>pc_apiKey = Some apiKey, pc_baseUrl = None,
                                                   pc_timeout = None\<rparr>\<rparr>
                in (initializeKnownClaudeModels this2, [])))"

text \<open>
  The constructor of the second provider file: with a non-empty API key it creates the
  client and starts \<open>discoverModels\<close> without awaiting it. The constructor returns when
  that call is suspended; \<open>discoverModels_resume\<close> runs later.
\<close>

definition constructor_part1 :: "process_env \<Rightarrow> AnthropicProvider \<times> transport_call list" where
  "constructor_part1 env =
     (let this = \<lparr>config = None, apiClient = None, discoveredModels = []\<rparr>
      in case ANTHROPIC_API_KEY env of
           None \<Rightarrow> (this, [])
         | Some apiKey \<Rightarrow>
             if apiKey = [] then (this, [])
             else
               (let anthropicConfig =
                      \<lparr>cfg_apiKey = apiKey,
                       cfg_baseUrl = ANTHROPIC_BASE_URL env,
                       cfg_timeout = (if truthy (ANTHROPIC_TIMEOUT env)
                                      then map_option ParseInt (ANTHROPIC_TIMEOUT env)
                                      else None)\<rparr>;
                    this1 = this\<lparr>apiClient := Some (new_AnthropicAPIClient anthropicConfig)\<rparr>;
                    this2 = this1\<lparr>config := Some \<lparr>pc_apiKey = Some apiKey, pc_baseUrl = None,
                                                   pc_timeout = None\<rparr>\<rparr>
                in (this2, snd (discoverModels_start this2))))"

text \<open>
  \<open>configure\<close> of the first provider file. \<open>this.config\<close> is assigned before the key
  is checked, so the state changes even when the call throws.
\<close>

definition configure_part0 ::
    "AnthropicProvider \<Rightarrow> ProviderConfig
      \<Rightarrow> ((js_error + unit) \<times> AnthropicProvider) \<times> transport_call list" where
  "configure_part0 this cfg =
     (let this1 = this\<lparr>config := Some cfg\<rparr>
      in case pc_apiKey cfg of
           None \<Rightarrow> ((Inl (Error ''Anthropic API key is required''), this1), [])
         | Some apiKey \<Rightarrow>
             if apiKey = []
             then ((Inl (Error ''Anthropic API key is required''), this1), [])
             else
               (let anthropicConfig =
                      \<lparr>cfg_apiKey = apiKey,
                       cfg_baseUrl = pc_baseUrl cfg,
                       cfg_timeout = map_option Millis (pc_timeout cfg)\<rparr>;
                    this2 = this1\<lparr>apiClient := Some (new_AnthropicAPIClient anthropicConfig)\<rparr>
                in if length (discoveredModels this2) = 0
                   then ((Inr (), initializeKnownClaudeModels this2), [])
                   else ((Inr (), this2), [])))"

text \<open>\<open>configure\<close> of the second provider file: it awaits a run of \<open>discoverModels\<close>.\<close>

definition configure_part1 ::
    "AnthropicProvider \<Rightarrow> ProviderConfig \<Rightarrow> get_outcome
      \<Rightarrow> ((js_error + unit) \<times> AnthropicProvider) \<times> transport_call list" where
  "configure_part1 this cfg outcome =
     (let this1 = this\<lparr>config := Some cfg\<rparr>
      in case pc_apiKey cfg of
           None \<Rightarrow> ((Inl (Error ''Anthropic API key is required''), this1), [])
         | Some apiKey \<Rightarrow>
             if apiKey = []
             then ((Inl (Error ''Anthropic API key is required''), this1), [])
             else
               (let anthropicConfig =
                      \<lparr>cfg_apiKey = apiKey,
                       cfg_baseUrl = pc_baseUrl cfg,
                       cfg_timeout = map_option Millis (pc_timeout cfg)\<rparr>;
                    this2 = this1\<lparr>apiClient := Some (new_AnthropicAPIClient anthropicConfig)\<rparr>
                in discoverModels this2 outcome))"

subsection \<open>Lookups and handle creation (the same in both provider files)\<close>

definition models :: "AnthropicProvider \<Rightarrow> ProviderModel list" where
  "models this = map snd (discoveredModels this)"

definition getModelsForCapability ::
    "AnthropicProvider \<Rightarrow> MediaCapability \<Rightarrow> ProviderModel list" where
  "getModelsForCapability this capability =
     (if capability = TEXT_TO_TEXT then models this else [])"

definition supportsTextToTextModel :: "AnthropicProvider \<Rightarrow> string \<Rightarrow> bool" where
  "supportsTextToTextModel this modelId = (modelId \<in> set (map fst (discoveredModels this)))"

text \<open>
  \<open>getSupportedTextToTextModels\<close>: the keys whose descriptor lists the capability;
  \<open>get(id)?.capabilities.includes(...)\<close> is falsy for a missing descriptor.
\<close>

definition getSupportedTextToTextModels :: "AnthropicProvider \<Rightarrow> string list" where
  "getSupportedTextToTextModels this =
     filter (\<lambda>ident. case map_of (discoveredModels this) ident of
                       None \<Rightarrow> False
                     | Some m \<Rightarrow> TEXT_TO_TEXT \<in> set (pm_capabilities m))
       (map fst (discoveredModels this))"

text \<open>
  Modelled from the spec: the class \<open>AnthropicTextToTextModel\<close> is not among the
  sources. The spec's generation handle is created bound to the model id; the handle is
  the pair of arguments its constructor receives.
\<close>

record AnthropicTextToTextModel =
  handle_apiClient :: AnthropicAPIClient
  handle_modelId :: string

definition createTextToTextModel ::
    "AnthropicProvider \<Rightarrow> string
      \<Rightarrow> (js_error + AnthropicTextToTextModel) \<times> transport_call list" where
  "createTextToTextModel this modelId =
     (case apiClient this of
        None \<Rightarrow> (Inl (Error ''Provider not configured''), [])
      | Some client \<Rightarrow>
          if \<not> supportsTextToTextModel this modelId
          then (Inl (Error (''Model '' @ [CHR 0x27] @ modelId @ [CHR 0x27] @
                            '' is not supported by Anthropic provider'')), [])
          else (Inr \<lparr>handle_apiClient = client, handle_modelId = modelId\<rparr>, []))"

definition getModel ::
    "AnthropicProvider \<Rightarrow> string
      \<Rightarrow> (js_error + AnthropicTextToTextModel) \<times> transport_call list" where
  "getModel this modelId =
     (case apiClient this of
        None \<Rightarrow>
          (Inl (Error (''Provider not configured - set ANTHROPIC_API_KEY '' @
                       ''environment variable or call configure()'')), [])
      | Some client \<Rightarrow> createTextToTextModel this modelId)"

subsection \<open>States a provider can be in\<close>

text \<open>
  The provider states that construction, configuration and the completion of a started
  discovery can produce, for either provider file. A discovery continuation may run at
  any later time, with any listing result.
\<close>

inductive reachable :: "AnthropicProvider \<Rightarrow> bool" where
  constructed0: "reachable (fst (constructor_part0 env))"
| constructed1: "reachable (fst (constructor_part1 env))"
| configured0: "reachable this \<Longrightarrow> reachable (snd (fst (configure_part0 this cfg)))"
| configured1: "reachable this \<Longrightarrow> reachable (snd (fst (configure_part1 this cfg outcome)))"
| discovered: "reachable this \<Longrightarrow> apiClient this \<noteq> None
                \<Longrightarrow> reachable (snd (discoverModels_resume this listing))"

text \<open>
  The uniformity of a registry: every entry is stored under its descriptor's id and
  carries the capability list \<open>[TEXT_TO_TEXT]\<close>.
\<close>

definition uniform :: "(string \<times> ProviderModel) list \<Rightarrow> bool" where
  "uniform reg = (\<forall>(k, m) \<in> set reg. pm_id m = k \<and> pm_capabilities m = [TEXT_TO_TEXT])"

section \<open>Properties of generateText\<close>

lemma generateText_calls:
  "snd (generateText outcome model prompt options) =
     [POST ''/messages'' (generateText_request model prompt options)]"
  by (simp add: generateText_def Let_def)

text \<open>
  C4, as the code has it. Every call of \<open>generateText\<close> issues exactly one POST to
  \<open>/messages\<close>. Its request carries \<open>model\<close>, \<open>max_tokens\<close> (the caller's \<open>maxTokens\<close>
  when supplied, otherwise 1024) and a non-empty \<open>messages\<close> list; \<open>temperature\<close> and
  \<open>top_p\<close> are the caller's values when supplied and are not sent otherwise. The request
  never carries \<open>stop_sequences\<close> (nor \<open>system\<close> or \<open>stream\<close>), whatever the options
  object holds.
\<close>

theorem generateText_request_fields:
  "\<exists>r. snd (generateText outcome model prompt options) = [POST ''/messages'' r]
     \<and> req_model r = model
     \<and> req_max_tokens r =
         (case Option.bind options opt_maxTokens of None \<Rightarrow> 1024 | Some n \<Rightarrow> n)
     \<and> req_messages r \<noteq> []
     \<and> req_temperature r = Option.bind options opt_temperature
     \<and> req_top_p r = Option.bind options opt_topP
     \<and> req_stop_sequences r = None
     \<and> req_system r = None
     \<and> req_stream r = None"
  by (simp add: generateText_calls generateText_request_def Let_def)

text \<open>
  C4 as stated fails for \<open>stop_sequences\<close>: an options object that carries stop
  sequences yields a request without them.
\<close>

theorem generateText_drops_stop_sequences:
  "snd (generateText (Inl NonError) ''claude-2.1'' ''hello''
         (Some \<lparr>opt_temperature = Some 0, opt_maxTokens = None, opt_topP = None,
                opt_systemPrompt = None, opt_stop_sequences = Some [''END'']\<rparr>))
   = [POST ''/messages''
        \<lparr>req_model = ''claude-2.1'', req_max_tokens = 1024,
         req_messages = [\<lparr>msg_role = user, msg_content = ''hello''\<rparr>],
         req_temperature = Some 0, req_top_p = None, req_stop_sequences = None,
         req_system = None, req_stream = None\<rparr>]"
  by (simp add: generateText_def generateText_request_def Let_def)

text \<open>
  C5. When the transport answers with a response: if the response data or its content
  array is missing, or the array has no segment, \<open>generateText\<close> throws
  \<open>No response content returned from Anthropic\<close> and returns no string; otherwise it
  returns the text fields of all segments, concatenated in response order with no
  separator.
\<close>

theorem generateText_result:
  "((outcome = Inr None
      \<or> (\<exists>response. outcome = Inr (Some response)
            \<and> (resp_content response = None \<or> resp_content response = Some [])))
     \<longrightarrow> fst (generateText outcome model prompt options)
           = Inl (Error ''No response content returned from Anthropic''))
   \<and> (\<forall>response parts.
         outcome = Inr (Some response) \<and> resp_content response = Some parts \<and> parts \<noteq> []
         \<longrightarrow> fst (generateText outcome model prompt options)
               = Inr (concat (map part_text parts)))"
  by (auto simp add: generateText_def Let_def)

theorem generateText_result_witness:
  "fst (generateText
         (Inr (Some \<lparr>resp_id = ''msg_1'', resp_type = ''message'', resp_role = ''assistant'',
                     resp_content = Some [\<lparr>part_type = ''text'', part_text = ''ab''\<rparr>,
                                          \<lparr>part_type = ''text'', part_text = ''cd''\<rparr>],
                     resp_model = ''model-x'', resp_stop_reason = None,
                     resp_stop_sequence = None\<rparr>))
         ''model-x'' ''hello'' (None :: generate_options option))
     = Inr ''abcd''
   \<and> fst (generateText
         (Inr (Some \<lparr>resp_id = ''msg_2'', resp_type = ''message'', resp_role = ''assistant'',
                     resp_content = Some [],
                     resp_model = ''model-x'', resp_stop_reason = None,
                     resp_stop_sequence = None\<rparr>))
         ''model-x'' ''hello'' (None :: generate_options option))
     = Inl (Error ''No response content returned from Anthropic'')"
  using generateText_result
    [of "Inr (Some \<lparr>resp_id = ''msg_1'', resp_type = ''message'', resp_role = ''assistant'',
                     resp_content = Some [\<lparr>part_type = ''text'', part_text = ''ab''\<rparr>,
                                          \<lparr>part_type = ''text'', part_text = ''cd''\<rparr>],
                     resp_model = ''model-x'', resp_stop_reason = None,
                     resp_stop_sequence = None\<rparr>)"
        "''model-x''" "''hello''" "None :: generate_options option"]
    generateText_result
    [of "Inr (Some \<lparr>resp_id = ''msg_2'', resp_type = ''message'', resp_role = ''assistant'',
                     resp_content = Some [],
                     resp_model = ''model-x'', resp_stop_reason = None,
                     resp_stop_sequence = None\<rparr>)"
        "''model-x''" "''hello''" "None :: generate_options option"]
  by simp

text \<open>
  C6. Every call of \<open>generateText\<close> posts one request whose message list is: when a
  system prompt is supplied (a non-empty \<open>systemPrompt\<close>), the system-role message with
  that content followed by the user-role message holding the prompt; without one, the
  user-role message alone.
\<close>

theorem generateText_message_list:
  "\<exists>r. snd (generateText outcome model prompt options) = [POST ''/messages'' r]
     \<and> (\<forall>s. Option.bind options opt_systemPrompt = Some s \<and> s \<noteq> []
           \<longrightarrow> req_messages r = [\<lparr>msg_role = system, msg_content = s\<rparr>,
                                  \<lparr>msg_role = user, msg_content = prompt\<rparr>])
     \<and> (\<not> truthy (Option.bind options opt_systemPrompt)
           \<longrightarrow> req_messages r = [\<lparr>msg_role = user, msg_content = prompt\<rparr>])"
  by (auto simp add: generateText_calls generateText_request_def Let_def truthy_def
           split: option.splits)

theorem generateText_message_list_witness:
  "\<exists>r. snd (generateText (Inl NonError) ''model-x'' ''hello''
              (Some \<lparr>opt_temperature = None, opt_maxTokens = None, opt_topP = None,
                     opt_systemPrompt = Some ''S''\<rparr>))
          = [POST ''/messages'' r]
     \<and> req_messages r = [\<lparr>msg_role = system, msg_content = ''S''\<rparr>,
                          \<lparr>msg_role = user, msg_content = ''hello''\<rparr>]"
  using generateText_message_list
    [of "Inl NonError" "''model-x''" "''hello''"
        "Some \<lparr>opt_temperature = None, opt_maxTokens = None, opt_topP = None,
               opt_systemPrompt = Some ''S''\<rparr>"]
  by auto

text \<open>
  C10. When \<open>options.systemPrompt\<close> is the empty string, no system-role message is
  added: the posted message list is the single user-role message, the same list as for
  an options object without a system prompt.
\<close>

theorem generateText_empty_systemPrompt:
  "Option.bind options opt_systemPrompt = Some []
   \<Longrightarrow> \<exists>r. snd (generateText outcome model prompt options) = [POST ''/messages'' r]
         \<and> req_messages r = [\<lparr>msg_role = user, msg_content = prompt\<rparr>]
         \<and> req_messages r =
             req_messages (generateText_request model prompt
                             (map_option (opt_systemPrompt_update (\<lambda>_. None)) options))"
  by (cases options) (simp_all add: generateText_calls generateText_request_def Let_def)

theorem generateText_empty_systemPrompt_witness:
  "\<exists>r. snd (generateText (Inl NonError) ''model-x'' ''hello''
              (Some \<lparr>opt_temperature = None, opt_maxTokens = None, opt_topP = None,
                     opt_systemPrompt = Some ''''\<rparr>))
          = [POST ''/messages'' r]
     \<and> req_messages r = [\<lparr>msg_role = user, msg_content = ''hello''\<rparr>]"
  using generateText_empty_systemPrompt
    [of "Some \<lparr>opt_temperature = None, opt_maxTokens = None, opt_topP = None,
               opt_systemPrompt = Some ''''\<rparr>" "Inl NonError" "''model-x''" "''hello''"]
  by auto

section \<open>The registry as an insertion-ordered map\<close>

lemma update_entry:
  "(a, m) \<in> set (AList.update k v al) \<Longrightarrow> (a = k \<and> m = v) \<or> (a, m) \<in> set al"
  by (induction al) (auto split: if_splits)

lemma fold_update_keys:
  "fst ` set (fold (\<lambda>x. AList.update (k x) (v x)) xs reg) = fst ` set reg \<union> k ` set xs"
  by (induction xs arbitrary: reg) (auto simp: dom_update)

lemma fold_update_entry:
  "(a, m) \<in> set (fold (\<lambda>x. AList.update (k x) (v x)) xs reg)
   \<Longrightarrow> (a, m) \<in> set reg \<or> (\<exists>x \<in> set xs. a = k x \<and> m = v x)"
  by (induction xs arbitrary: reg) (auto dest!: update_entry)

lemma fold_update_other:
  "a \<notin> k ` set xs
   \<Longrightarrow> map_of (fold (\<lambda>x. AList.update (k x) (v x)) xs reg) a = map_of reg a"
  by (induction xs arbitrary: reg) (auto simp: update_conv')

lemma fold_update_nonempty:
  "xs \<noteq> [] \<Longrightarrow> fold (\<lambda>x. AList.update (k x) (v x)) xs reg \<noteq> []"
  using fold_update_keys [of k v xs reg] by (cases xs) auto

lemma known_keys:
  "discoveredModels this = []
   \<Longrightarrow> map fst (discoveredModels (initializeKnownClaudeModels this)) = knownModels"
  by (simp add: initializeKnownClaudeModels_def knownModels_def)

lemma fallback_keys:
  "fst ` set (discoveredModels (initializeFallbackModels this))
     = fst ` set (discoveredModels this) \<union> set fallbackModels"
  by (simp add: initializeFallbackModels_def fold_update_keys)

lemma fallback_nonempty: "discoveredModels (initializeFallbackModels this) \<noteq> []"
  by (simp add: initializeFallbackModels_def fallbackModels_def)

lemma resume_cases:
  "snd (discoverModels_resume this listing) =
     (case listing of
        Inr (Some listed) \<Rightarrow>
          if listed = [] then initializeFallbackModels this
          else this\<lparr>discoveredModels :=
                      fold (\<lambda>model. AList.update (am_id model) (discovered_providerModel model))
                        listed (discoveredModels this)\<rparr>
      | _ \<Rightarrow> initializeFallbackModels this)"
  by (simp add: discoverModels_resume_def split: sum.splits option.splits)

lemma discoverModels_configured:
  "apiClient this = Some client
   \<Longrightarrow> discoverModels this outcome
       = (discoverModels_resume this (getAvailableModels outcome), [GET ''/models''])"
  by (simp add: discoverModels_def discoverModels_start_def)

lemma uniform_fold:
  assumes "uniform reg"
    and "\<And>x. pm_id (v x) = k x \<and> pm_capabilities (v x) = [TEXT_TO_TEXT]"
  shows "uniform (fold (\<lambda>x. AList.update (k x) (v x)) xs reg)"
  unfolding uniform_def
proof (clarify)
  fix a m
  assume "(a, m) \<in> set (fold (\<lambda>x. AList.update (k x) (v x)) xs reg)"
  then consider "(a, m) \<in> set reg" | x where "a = k x" "m = v x"
    using fold_update_entry by fastforce
  then show "pm_id m = a \<and> pm_capabilities m = [TEXT_TO_TEXT]"
  proof cases
    case 1
    with assms(1) show ?thesis by (auto simp: uniform_def)
  next
    case 2
    with assms(2) show ?thesis by simp
  qed
qed

lemma uniform_known: "uniform (discoveredModels this)
    \<Longrightarrow> uniform (discoveredModels (initializeKnownClaudeModels this))"
  by (simp add: initializeKnownClaudeModels_def uniform_fold known_providerModel_def)

lemma uniform_fallback: "uniform (discoveredModels this)
    \<Longrightarrow> uniform (discoveredModels (initializeFallbackModels this))"
  by (simp add: initializeFallbackModels_def uniform_fold fallback_providerModel_def)

lemma uniform_resume: "uniform (discoveredModels this)
    \<Longrightarrow> uniform (discoveredModels (snd (discoverModels_resume this listing)))"
  by (auto simp: resume_cases uniform_fallback uniform_fold discovered_providerModel_def
           split: sum.splits option.splits)

lemma uniform_discoverModels: "uniform (discoveredModels this)
    \<Longrightarrow> uniform (discoveredModels (snd (fst (discoverModels this outcome))))"
  by (cases "apiClient this")
     (simp_all add: discoverModels_def discoverModels_start_def uniform_resume)

lemma uniform_reachable: "reachable this \<Longrightarrow> uniform (discoveredModels this)"
proof (induction rule: reachable.induct)
  case (constructed0 env)
  have "uniform []" by (simp add: uniform_def)
  then show ?case
    by (auto simp: constructor_part0_def Let_def split: option.splits intro!: uniform_known)
next
  case (constructed1 env)
  show ?case
    by (simp add: constructor_part1_def Let_def uniform_def split: option.splits)
next
  case (configured0 this cfg)
  then show ?case
    by (auto simp: configure_part0_def Let_def split: option.splits intro!: uniform_known)
next
  case (configured1 this cfg outcome)
  then show ?case
    by (auto simp: configure_part1_def Let_def split: option.splits
             intro!: uniform_discoverModels)
next
  case (discovered this listing)
  then show ?case by (simp add: uniform_resume)
qed

lemma known_apiClient: "apiClient (initializeKnownClaudeModels this) = apiClient this"
  by (simp add: initializeKnownClaudeModels_def)

lemma truthy_Some: "truthy v \<Longrightarrow> \<exists>s. v = Some s \<and> s \<noteq> []"
  by (cases v) (simp_all add: truthy_def)

lemma constructor_part0_keyed:
  assumes "truthy (ANTHROPIC_API_KEY env)"
  shows "apiClient (fst (constructor_part0 env)) \<noteq> None"
    and "map fst (discoveredModels (fst (constructor_part0 env))) = knownModels"
    and "snd (constructor_part0 env) = []"
proof -
  from assms obtain apiKey where "ANTHROPIC_API_KEY env = Some apiKey" "apiKey \<noteq> []"
    using truthy_Some by blast
  then show "apiClient (fst (constructor_part0 env)) \<noteq> None"
    and "map fst (discoveredModels (fst (constructor_part0 env))) = knownModels"
    and "snd (constructor_part0 env) = []"
    by (simp_all add: constructor_part0_def Let_def known_keys known_apiClient)
qed

lemma constructor_part1_keyed:
  assumes "truthy (ANTHROPIC_API_KEY env)"
  shows "apiClient (fst (constructor_part1 env)) \<noteq> None"
    and "discoveredModels (fst (constructor_part1 env)) = []"
    and "snd (constructor_part1 env) = [GET ''/models'']"
proof -
  from assms obtain apiKey where "ANTHROPIC_API_KEY env = Some apiKey" "apiKey \<noteq> []"
    using truthy_Some by blast
  then show "apiClient (fst (constructor_part1 env)) \<noteq> None"
    and "discoveredModels (fst (constructor_part1 env)) = []"
    and "snd (constructor_part1 env) = [GET ''/models'']"
    by (simp_all add: constructor_part1_def Let_def discoverModels_start_def)
qed

lemma resume_nonempty: "discoveredModels (snd (discoverModels_resume this listing)) \<noteq> []"
  by (auto simp: resume_cases fallback_nonempty fold_update_nonempty
           split: sum.splits option.splits)

lemma filter_all: "(\<And>x. x \<in> set xs \<Longrightarrow> P x) \<Longrightarrow> filter P xs = xs"
  by (induction xs) auto

lemma uniform_supported:
  assumes "uniform (discoveredModels this)"
  shows "getSupportedTextToTextModels this = map fst (discoveredModels this)"
  unfolding getSupportedTextToTextModels_def
proof (rule filter_all)
  fix ident
  assume "ident \<in> set (map fst (discoveredModels this))"
  then obtain m where m: "map_of (discoveredModels this) ident = Some m"
    by (metis map_of_eq_None_iff not_Some_eq set_map)
  then have "(ident, m) \<in> set (discoveredModels this)"
    by (rule map_of_SomeD)
  with assms have "pm_capabilities m = [TEXT_TO_TEXT]"
    by (auto simp: uniform_def)
  with m show "case map_of (discoveredModels this) ident of
                 None \<Rightarrow> False | Some m \<Rightarrow> TEXT_TO_TEXT \<in> set (pm_capabilities m)"
    by simp
qed

lemma fallback_other:
  "a \<notin> set fallbackModels
   \<Longrightarrow> map_of (discoveredModels (initializeFallbackModels this)) a
       = map_of (discoveredModels this) a"
  by (simp add: initializeFallbackModels_def fold_update_other)

section \<open>Properties of the provider\<close>

text \<open>
  C1. On a configured provider, for every model identifier that is not a key of the
  registry, \<open>createTextToTextModel\<close> throws the unsupported-model error, \<open>getModel\<close>
  does the same, and neither issues a transport call.
\<close>

theorem unsupported_model_rejected:
  assumes "apiClient this = Some client"
    and "modelId \<notin> set (map fst (discoveredModels this))"
  shows "createTextToTextModel this modelId
           = (Inl (Error (''Model '' @ [CHR 0x27] @ modelId @ [CHR 0x27] @
                          '' is not supported by Anthropic provider'')), [])
       \<and> getModel this modelId = createTextToTextModel this modelId"
  using assms by (simp add: createTextToTextModel_def getModel_def supportsTextToTextModel_def)

theorem unsupported_model_rejected_witness:
  "apiClient \<lparr>config = None,
              apiClient = Some (new_AnthropicAPIClient
                                 \<lparr>cfg_apiKey = ''sk-test'', cfg_baseUrl = None,
                                  cfg_timeout = None\<rparr>),
              discoveredModels = [(''claude-2.1'', known_providerModel ''claude-2.1'')]\<rparr>
     = Some (new_AnthropicAPIClient
              \<lparr>cfg_apiKey = ''sk-test'', cfg_baseUrl = None, cfg_timeout = None\<rparr>)
   \<and> ''gpt-4'' \<notin> set (map fst [(''claude-2.1'', known_providerModel ''claude-2.1'')])
   \<and> getModel \<lparr>config = None,
              apiClient = Some (new_AnthropicAPIClient
                                 \<lparr>cfg_apiKey = ''sk-test'', cfg_baseUrl = None,
                                  cfg_timeout = None\<rparr>),
              discoveredModels = [(''claude-2.1'', known_providerModel ''claude-2.1'')]\<rparr>
        ''gpt-4''
     = (Inl (Error (''Model '' @ [CHR 0x27] @ ''gpt-4'' @ [CHR 0x27] @
                    '' is not supported by Anthropic provider'')), [])"
  using unsupported_model_rejected
    [of "\<lparr>config = None,
          apiClient = Some (new_AnthropicAPIClient
                             \<lparr>cfg_apiKey = ''sk-test'', cfg_baseUrl = None,
                              cfg_timeout = None\<rparr>),
          discoveredModels = [(''claude-2.1'', known_providerModel ''claude-2.1'')]\<rparr>"
        "new_AnthropicAPIClient
           \<lparr>cfg_apiKey = ''sk-test'', cfg_baseUrl = None, cfg_timeout = None\<rparr>"
        "''gpt-4''"]
  by simp

text \<open>
  C8. When no API client exists, \<open>createTextToTextModel\<close> and \<open>getModel\<close> both throw
  their configuration error for every model identifier, whether or not it is a key of
  the registry, and issue no transport call.
\<close>

theorem unconfigured_provider_rejects:
  assumes "apiClient this = None"
  shows "createTextToTextModel this modelId = (Inl (Error ''Provider not configured''), [])
       \<and> getModel this modelId
           = (Inl (Error (''Provider not configured - set ANTHROPIC_API_KEY '' @
                          ''environment variable or call configure()'')), [])"
  using assms by (simp add: createTextToTextModel_def getModel_def)

theorem unconfigured_provider_rejects_witness:
  "supportsTextToTextModel
     \<lparr>config = None, apiClient = None,
      discoveredModels = [(''claude-2.1'', known_providerModel ''claude-2.1'')]\<rparr> ''claude-2.1''
   \<and> createTextToTextModel
       \<lparr>config = None, apiClient = None,
        discoveredModels = [(''claude-2.1'', known_providerModel ''claude-2.1'')]\<rparr> ''claude-2.1''
     = (Inl (Error ''Provider not configured''), [])
   \<and> getModel
       \<lparr>config = None, apiClient = None,
        discoveredModels = [(''claude-2.1'', known_providerModel ''claude-2.1'')]\<rparr> ''claude-2.1''
     = (Inl (Error (''Provider not configured - set ANTHROPIC_API_KEY '' @
                    ''environment variable or call configure()'')), [])"
  using unconfigured_provider_rejects
    [of "\<lparr>config = None, apiClient = None,
          discoveredModels = [(''claude-2.1'', known_providerModel ''claude-2.1'')]\<rparr>"
        "''claude-2.1''"]
  by (simp add: supportsTextToTextModel_def)

text \<open>
  C3, as the code has it. With a non-empty API key in the environment, the constructor
  of the first provider file returns with no transport call issued, the registry holding
  exactly the eleven known identifiers, and \<open>claude-3-5-sonnet-latest\<close> supported. The
  constructor of the second provider file returns with an empty registry and one listing
  request issued; the registry is non-empty once that discovery has completed.
\<close>

theorem constructor_registry:
  assumes "truthy (ANTHROPIC_API_KEY env)"
  shows "snd (constructor_part0 env) = []
       \<and> map fst (discoveredModels (fst (constructor_part0 env))) = knownModels
       \<and> discoveredModels (fst (constructor_part0 env)) \<noteq> []
       \<and> supportsTextToTextModel (fst (constructor_part0 env)) ''claude-3-5-sonnet-latest''
       \<and> snd (constructor_part1 env) = [GET ''/models'']
       \<and> discoveredModels (fst (constructor_part1 env)) = []
       \<and> discoveredModels (snd (discoverModels_resume (fst (constructor_part1 env)) listing))
           \<noteq> []"
proof -
  have keys: "map fst (discoveredModels (fst (constructor_part0 env))) = knownModels"
    using assms by (rule constructor_part0_keyed)
  then have "discoveredModels (fst (constructor_part0 env)) \<noteq> []"
    by (auto simp: knownModels_def)
  moreover have "supportsTextToTextModel (fst (constructor_part0 env))
                   ''claude-3-5-sonnet-latest''"
    unfolding supportsTextToTextModel_def keys by (simp add: knownModels_def)
  ultimately show ?thesis
    using assms keys
    by (simp add: constructor_part0_keyed constructor_part1_keyed resume_nonempty)
qed

theorem constructor_registry_witness:
  "truthy (ANTHROPIC_API_KEY \<lparr>ANTHROPIC_API_KEY = Some ''sk-test'',
                               ANTHROPIC_BASE_URL = None, ANTHROPIC_TIMEOUT = None\<rparr>)
   \<and> snd (constructor_part0 \<lparr>ANTHROPIC_API_KEY = Some ''sk-test'',
                              ANTHROPIC_BASE_URL = None, ANTHROPIC_TIMEOUT = None\<rparr>) = []
   \<and> supportsTextToTextModel
       (fst (constructor_part0 \<lparr>ANTHROPIC_API_KEY = Some ''sk-test'',
                                ANTHROPIC_BASE_URL = None, ANTHROPIC_TIMEOUT = None\<rparr>))
       ''claude-3-5-sonnet-latest''"
  using constructor_registry
    [of "\<lparr>ANTHROPIC_API_KEY = Some ''sk-test'',
          ANTHROPIC_BASE_URL = None, ANTHROPIC_TIMEOUT = None\<rparr>"]
  by (simp add: truthy_def)

text \<open>
  C3 as stated fails on the second provider file: right after construction with an API
  key its registry is empty, \<open>claude-3-5-sonnet-latest\<close> is not supported, and a listing
  request has been issued.
\<close>

theorem constructor_part1_registry_empty:
  "\<not> supportsTextToTextModel
       (fst (constructor_part1 \<lparr>ANTHROPIC_API_KEY = Some ''sk-test'',
                                ANTHROPIC_BASE_URL = None, ANTHROPIC_TIMEOUT = None\<rparr>))
       ''claude-3-5-sonnet-latest''
   \<and> discoveredModels
       (fst (constructor_part1 \<lparr>ANTHROPIC_API_KEY = Some ''sk-test'',
                                ANTHROPIC_BASE_URL = None, ANTHROPIC_TIMEOUT = None\<rparr>)) = []
   \<and> snd (constructor_part1 \<lparr>ANTHROPIC_API_KEY = Some ''sk-test'',
                              ANTHROPIC_BASE_URL = None, ANTHROPIC_TIMEOUT = None\<rparr>)
     = [GET ''/models'']"
  by (simp add: constructor_part1_def Let_def supportsTextToTextModel_def
                discoverModels_start_def truthy_def)

text \<open>
  C2, as the code has it. On a configured provider, for every prior registry, after
  \<open>discoverModels\<close> completes: if the listing returned a non-empty list, the registry's
  key set is the prior key set together with the discovered ids; if it returned an empty
  list, the prior key set together with the fallback ids. The entries under all other
  keys are the prior ones: nothing is removed.
\<close>

theorem discoverModels_adds_to_registry:
  assumes "apiClient this = Some client"
  shows "(\<forall>listed. getAvailableModels outcome = Inr (Some listed) \<and> listed \<noteq> [] \<longrightarrow>
            set (map fst (discoveredModels (snd (fst (discoverModels this outcome)))))
              = set (map fst (discoveredModels this)) \<union> set (map am_id listed)
            \<and> (\<forall>a. a \<notin> set (map am_id listed) \<longrightarrow>
                   map_of (discoveredModels (snd (fst (discoverModels this outcome)))) a
                     = map_of (discoveredModels this) a))
       \<and> (getAvailableModels outcome = Inr (Some []) \<longrightarrow>
            set (map fst (discoveredModels (snd (fst (discoverModels this outcome)))))
              = set (map fst (discoveredModels this)) \<union> set fallbackModels
            \<and> (\<forall>a. a \<notin> set fallbackModels \<longrightarrow>
                   map_of (discoveredModels (snd (fst (discoverModels this outcome)))) a
                     = map_of (discoveredModels this) a))"
  using assms
  by (auto simp: discoverModels_configured resume_cases fold_update_keys fold_update_other
                 fallback_keys fallback_other image_Un)

theorem discoverModels_adds_to_registry_witness:
  "set (map fst (discoveredModels (snd (fst (discoverModels
      (fst (constructor_part1 \<lparr>ANTHROPIC_API_KEY = Some ''sk-test'',
                               ANTHROPIC_BASE_URL = None, ANTHROPIC_TIMEOUT = None\<rparr>))
      (Inr (Some \<lparr>mr_data = Some [\<lparr>am_id = ''claude-4'', am_display_name = None,
                                     am_created_at = None, am_type = ''model''\<rparr>],
                  mr_first_id = None, mr_last_id = None, mr_has_more = False\<rparr>)))))))
   = {''claude-4''}"
  using discoverModels_adds_to_registry
    [of "fst (constructor_part1 \<lparr>ANTHROPIC_API_KEY = Some ''sk-test'',
                                 ANTHROPIC_BASE_URL = None, ANTHROPIC_TIMEOUT = None\<rparr>)"
        "new_AnthropicAPIClient \<lparr>cfg_apiKey = ''sk-test'', cfg_baseUrl = None,
                                 cfg_timeout = None\<rparr>"
        "Inr (Some \<lparr>mr_data = Some [\<lparr>am_id = ''claude-4'', am_display_name = None,
                                      am_created_at = None, am_type = ''model''\<rparr>],
                    mr_first_id = None, mr_last_id = None, mr_has_more = False\<rparr>)"]
  by (simp add: constructor_part1_def Let_def discoverModels_start_def getAvailableModels_def
                truthy_def)

text \<open>
  C2 as stated fails: the prior contents stay. After the fallback list was installed,
  a discovery that lists one model leaves four keys; after a discovery that listed one
  model, a discovery that lists none leaves that model beside the fallback ids.
\<close>

theorem discoverModels_keeps_prior_entries:
  "map fst (discoveredModels (snd (fst (discoverModels
      (snd (discoverModels_resume
         (fst (constructor_part1 \<lparr>ANTHROPIC_API_KEY = Some ''sk-test'',
                                  ANTHROPIC_BASE_URL = None, ANTHROPIC_TIMEOUT = None\<rparr>))
         (Inl (Error ''Failed to fetch Anthropic models: timeout''))))
      (Inr (Some \<lparr>mr_data = Some [\<lparr>am_id = ''claude-4'', am_display_name = None,
                                     am_created_at = None, am_type = ''model''\<rparr>],
                  mr_first_id = None, mr_last_id = None, mr_has_more = False\<rparr>))))))
   = [''claude-3-5-sonnet-latest'', ''claude-3-5-haiku-latest'', ''claude-3-opus-latest'',
      ''claude-4'']
   \<and> map fst (discoveredModels (snd (fst (discoverModels
      (snd (discoverModels_resume
         (fst (constructor_part1 \<lparr>ANTHROPIC_API_KEY = Some ''sk-test'',
                                  ANTHROPIC_BASE_URL = None, ANTHROPIC_TIMEOUT = None\<rparr>))
         (Inr (Some [\<lparr>am_id = ''claude-4'', am_display_name = None,
                      am_created_at = None, am_type = ''model''\<rparr>]))))
      (Inr (Some \<lparr>mr_data = Some [], mr_first_id = None, mr_last_id = None,
                  mr_has_more = False\<rparr>))))))
   = [''claude-4'', ''claude-3-5-sonnet-latest'', ''claude-3-5-haiku-latest'',
      ''claude-3-opus-latest'']"
  by (simp add: constructor_part1_def Let_def discoverModels_start_def discoverModels_def
                discoverModels_resume_def getAvailableModels_def initializeFallbackModels_def
                fallbackModels_def)

text \<open>
  C7. \<open>discoverModels\<close> never raises, whatever the transport answers, and neither does
  its continuation when the call was not awaited. On a configured provider the registry
  is non-empty afterwards, and whenever the listing did not produce a non-empty list
  (the request failed, the body was malformed, or the list was empty) the outcome is
  exactly the state left by \<open>initializeFallbackModels\<close>, whose keys include every
  fallback id.
\<close>

theorem discoverModels_never_raises:
  "fst (fst (discoverModels this outcome)) = Inr ()
   \<and> fst (discoverModels_resume this listing) = Inr ()
   \<and> (apiClient this \<noteq> None \<longrightarrow>
        discoveredModels (snd (fst (discoverModels this outcome))) \<noteq> []
        \<and> ((\<forall>listed. getAvailableModels outcome = Inr (Some listed) \<longrightarrow> listed = []) \<longrightarrow>
              snd (fst (discoverModels this outcome)) = initializeFallbackModels this
              \<and> set fallbackModels
                  \<subseteq> set (map fst (discoveredModels (snd (fst (discoverModels this outcome)))))))"
proof -
  have resume: "fst (discoverModels_resume this l) = Inr ()" for l
    by (simp add: discoverModels_resume_def split: sum.splits option.splits)
  have "fst (fst (discoverModels this outcome)) = Inr ()"
    by (cases "apiClient this")
       (simp_all add: discoverModels_def discoverModels_start_def resume)
  moreover have "discoveredModels (snd (fst (discoverModels this outcome))) \<noteq> []"
    if "apiClient this \<noteq> None"
    using that by (auto simp: discoverModels_configured resume_nonempty)
  moreover have "snd (fst (discoverModels this outcome)) = initializeFallbackModels this"
    if "apiClient this \<noteq> None"
      and "\<forall>listed. getAvailableModels outcome = Inr (Some listed) \<longrightarrow> listed = []"
    using that
    by (auto simp: discoverModels_configured resume_cases split: sum.splits option.splits)
  moreover have "set fallbackModels
                   \<subseteq> set (map fst (discoveredModels (initializeFallbackModels this)))"
    by (simp add: fallback_keys)
  ultimately show ?thesis using resume by auto
qed

theorem discoverModels_never_raises_witness:
  "fst (discoverModels
      (fst (constructor_part1 \<lparr>ANTHROPIC_API_KEY = Some ''sk-test'',
                               ANTHROPIC_BASE_URL = None, ANTHROPIC_TIMEOUT = None\<rparr>))
      (Inl (Error ''connect ECONNREFUSED'')))
   = (Inr (),
      initializeFallbackModels
        (fst (constructor_part1 \<lparr>ANTHROPIC_API_KEY = Some ''sk-test'',
                                 ANTHROPIC_BASE_URL = None, ANTHROPIC_TIMEOUT = None\<rparr>)))
   \<and> map fst (discoveredModels (initializeFallbackModels
        (fst (constructor_part1 \<lparr>ANTHROPIC_API_KEY = Some ''sk-test'',
                                 ANTHROPIC_BASE_URL = None, ANTHROPIC_TIMEOUT = None\<rparr>))))
     = [''claude-3-5-sonnet-latest'', ''claude-3-5-haiku-latest'', ''claude-3-opus-latest'']"
  using discoverModels_never_raises
    [of "fst (constructor_part1 \<lparr>ANTHROPIC_API_KEY = Some ''sk-test'',
                                 ANTHROPIC_BASE_URL = None, ANTHROPIC_TIMEOUT = None\<rparr>)"
        "Inl (Error ''connect ECONNREFUSED'')"]
  by (simp add: constructor_part1_def Let_def getAvailableModels_def prod_eq_iff
                initializeFallbackModels_def fallbackModels_def)

text \<open>
  C9. In every state a provider can reach, each registry entry is stored under its
  descriptor's id and carries the capability list \<open>[TEXT_TO_TEXT]\<close>, and each of the
  three population routines keeps it so. Hence \<open>getSupportedTextToTextModels\<close> returns
  all keys of the registry and \<open>getModelsForCapability(TEXT_TO_TEXT)\<close> all stored
  descriptors, both in insertion order.
\<close>

theorem registry_uniform:
  assumes "reachable this"
  shows "(\<forall>(k, m) \<in> set (discoveredModels this).
            pm_id m = k \<and> pm_capabilities m = [TEXT_TO_TEXT])
       \<and> uniform (discoveredModels (initializeKnownClaudeModels this))
       \<and> uniform (discoveredModels (initializeFallbackModels this))
       \<and> uniform (discoveredModels (snd (discoverModels_resume this listing)))
       \<and> getSupportedTextToTextModels this = map fst (discoveredModels this)
       \<and> getModelsForCapability this TEXT_TO_TEXT = map snd (discoveredModels this)"
proof -
  have u: "uniform (discoveredModels this)"
    using assms by (rule uniform_reachable)
  then have "\<forall>(k, m) \<in> set (discoveredModels this).
               pm_id m = k \<and> pm_capabilities m = [TEXT_TO_TEXT]"
    by (simp add: uniform_def)
  moreover have "getModelsForCapability this TEXT_TO_TEXT = map snd (discoveredModels this)"
    by (simp add: getModelsForCapability_def models_def)
  ultimately show ?thesis
    using u by (simp add: uniform_known uniform_fallback uniform_resume uniform_supported)
qed

theorem registry_uniform_witness:
  "reachable (fst (constructor_part0 \<lparr>ANTHROPIC_API_KEY = Some ''sk-test'',
                                      ANTHROPIC_BASE_URL = None, ANTHROPIC_TIMEOUT = None\<rparr>))
   \<and> getSupportedTextToTextModels
       (fst (constructor_part0 \<lparr>ANTHROPIC_API_KEY = Some ''sk-test'',
                                ANTHROPIC_BASE_URL = None, ANTHROPIC_TIMEOUT = None\<rparr>))
     = [''claude-3-5-sonnet-latest'', ''claude-3-5-haiku-latest'', ''claude-3-opus-latest'',
        ''claude-3-5-sonnet-20241022'', ''claude-3-5-sonnet-20240620'',
        ''claude-3-5-haiku-20241022'', ''claude-3-opus-20240229'', ''claude-3-sonnet-20240229'',
        ''claude-3-haiku-20240307'', ''claude-2.1'', ''claude-2.0'']"
proof -
  have r: "reachable (fst (constructor_part0 \<lparr>ANTHROPIC_API_KEY = Some ''sk-test'',
             ANTHROPIC_BASE_URL = None, ANTHROPIC_TIMEOUT = None\<rparr>))"
    by (rule reachable.constructed0)
  have "truthy (ANTHROPIC_API_KEY \<lparr>ANTHROPIC_API_KEY = Some ''sk-test'',
             ANTHROPIC_BASE_URL = None, ANTHROPIC_TIMEOUT = None\<rparr>)"
    by (simp add: truthy_def)
  then have "map fst (discoveredModels (fst (constructor_part0
               \<lparr>ANTHROPIC_API_KEY = Some ''sk-test'', ANTHROPIC_BASE_URL = None,
                ANTHROPIC_TIMEOUT = None\<rparr>))) = knownModels"
    by (rule constructor_part0_keyed)
  with r registry_uniform [OF r] show ?thesis
    by (simp add: knownModels_def)
qed

end
